theory Spec2Isabelle
  imports Main "HOL-Library.Word"
begin

section \<open>The plugin editor shell (Source/PluginEditor.h, Source/PluginEditor.cpp)\<close>

text \<open>
  The editor is glue between a GUI toolkit (its base class and the container component) and
  a UI-loading library (the loader and the image provider). Neither is part of the sources.
  The accessors the editor uses on its own components (bounds, width, height, visibility) are
  modelled by the fields they read and write. Everything whose behaviour the sources do not
  show is a parameter, collected in the record \<open>toolkit\<close>: what the loader does to the
  container and to its own widget tree, how the window base class adjusts the current bounds
  when resize limits are installed, which colour the look-and-feel returns, and the compiled-in
  resource table. Library calls are total functions here: the model has no failure inside
  the libraries, only the failures the editor's own code can cause (dereferencing an empty
  \<open>std::unique_ptr\<close>).
\<close>

subsection \<open>Toolkit data the editor touches\<close>

text \<open>\<open>juce::Rectangle<int>\<close>: position and size.\<close>

record rect =
  rx :: int
  ry :: int
  rw :: int
  rh :: int

definition zero_rect :: rect where
  "zero_rect = \<lparr>rx = 0, ry = 0, rw = 0, rh = 0\<rparr>"

text \<open>
  The state of a plain \<open>juce::Component\<close> as far as the editor and the loader act on
  it: its bounds, whether it is visible, whether it has been added to a parent, and how many
  child components are attached under it.
\<close>

record component =
  cbounds :: rect
  cvisible :: bool
  cparented :: bool
  cchildren :: nat

definition new_component :: component where
  "new_component = \<lparr>cbounds = zero_rect, cvisible = False, cparented = False, cchildren = 0\<rparr>"

definition getWidth :: "component \<Rightarrow> int" where
  "getWidth c = rw (cbounds c)"

definition getHeight :: "component \<Rightarrow> int" where
  "getHeight c = rh (cbounds c)"

definition setBounds :: "rect \<Rightarrow> component \<Rightarrow> component" where
  "setBounds r c = c\<lparr>cbounds := r\<rparr>"

text \<open>\<open>juce::Colour\<close> is a 32-bit ARGB value; colours are looked up by identifier.\<close>

type_synonym colour = "32 word"

datatype colour_id = ResizableWindow_backgroundColourId | OtherColourId int

text \<open>
  A \<open>juce::Graphics\<close> context: its clip region (the visible surface) and the drawing
  commands issued on it so far.
\<close>

datatype draw_op = FillRect rect colour

record graphics =
  clip :: rect
  drawn :: "draw_op list"

definition fillAll :: "colour \<Rightarrow> graphics \<Rightarrow> graphics" where
  "fillAll c g = g\<lparr>drawn := drawn g @ [FillRect (clip g) c]\<rparr>"

text \<open>
  The \<open>BinaryData\<close> namespace is generated at build time; the editor only passes
  its four entries on to the image provider.
\<close>

record binary_data =
  namedResourceList :: "string list"
  namedResourceListSize :: int
  getNamedResource :: "string \<Rightarrow> 8 word list option"
  getNamedResourceOriginalFilename :: "string \<Rightarrow> string option"

datatype image_loader =
  BinaryAssetImageLoader "string list" int "string \<Rightarrow> 8 word list option"
    "string \<Rightarrow> string option"

subsection \<open>The editor's state\<close>

text \<open>
  The calls the editor issues on the container, the loader and its own window, in program
  order. \<open>ApplyLayout\<close> records the container's bounds at the moment of the call.
\<close>

datatype call =
    AddAndMakeVisible
  | NewLoader
  | LoadUI string
  | SetResizable bool bool
  | SetResizeLimits int int int int
  | SetSize int int
  | ContainerSetBounds rect
  | ApplyLayout rect
  | DestroyLoader
  | DestroyImageLoader
  | DestroyContainer
  | DestroyBase

datatype error = NullDereference | ContainerDestroyedUnderLoader

text \<open>
  The members of \<open>AudioPluginAudioProcessorEditor\<close> in declaration order
  (PluginEditor.h, lines 20 to 24), the part of the base class the constructor configures
  (bounds, the two flags of \<open>setResizable\<close>, the resize limits), and the call log.
  \<open>processorRef\<close> is a reference: the field stands for the processor object it denotes,
  so a write through the reference would show as a change of the field.
  \<open>uiLoader\<close> is a \<open>std::unique_ptr\<close>: \<open>None\<close> is the null pointer.
\<close>

record ('p, 'l) editor =
  bounds :: rect
  resizableByHost :: bool
  cornerResizer :: bool
  resizeLimits :: "(int \<times> int \<times> int \<times> int) option"
  processorRef :: 'p
  uiContainer :: component
  imageLoader :: image_loader
  uiLoader :: "'l option"
  calls :: "call list"

text \<open>
  What the sources do not show. \<open>'l\<close> is the loader's own state (the parsed description
  and the widget tree it owns). The loader was built on references to the container and the
  image provider, so each of its operations receives both and may change the container.
  \<open>constrainBounds\<close> is what the window base class makes of the current bounds when
  \<open>setResizeLimits\<close> installs new limits.
\<close>

record 'l toolkit =
  resources :: binary_data
  newLoader :: "image_loader \<Rightarrow> component \<Rightarrow> component \<times> 'l"
  loadUI :: "string \<Rightarrow> image_loader \<Rightarrow> component \<Rightarrow> 'l \<Rightarrow> component \<times> 'l"
  applyLayout :: "image_loader \<Rightarrow> component \<Rightarrow> 'l \<Rightarrow> component \<times> 'l"
  deleteLoader :: "component \<Rightarrow> 'l \<Rightarrow> component"
  constrainBounds :: "int \<times> int \<times> int \<times> int \<Rightarrow> rect \<Rightarrow> rect"
  findColour :: "colour_id \<Rightarrow> colour"

subsection \<open>The callbacks\<close>

definition getLocalBounds :: "('p, 'l) editor \<Rightarrow> rect" where
  "getLocalBounds e = \<lparr>rx = 0, ry = 0, rw = rw (bounds e), rh = rh (bounds e)\<rparr>"

text \<open>\<open>paint\<close> (PluginEditor.cpp, lines 35 to 38).\<close>

definition paint :: "'l toolkit \<Rightarrow> ('p, 'l) editor \<Rightarrow> graphics \<Rightarrow> ('p, 'l) editor \<times> graphics" where
  "paint fw e g = (e, fillAll (findColour fw ResizableWindow_backgroundColourId) g)"

text \<open>
  \<open>resized\<close> (lines 40 to 45): the container takes the editor's local bounds, then the
  loader, reached through the \<open>unique_ptr\<close>, applies its layout.
\<close>

definition resized :: "'l toolkit \<Rightarrow> ('p, 'l) editor \<Rightarrow> error + ('p, 'l) editor" where
  "resized fw e =
     (let e1 = e\<lparr>uiContainer := setBounds (getLocalBounds e) (uiContainer e),
                 calls := calls e @ [ContainerSetBounds (getLocalBounds e)]\<rparr>
      in case uiLoader e1 of
           None \<Rightarrow> Inl NullDereference
         | Some l \<Rightarrow>
             (let (c, l') = applyLayout fw (imageLoader e1) (uiContainer e1) l
              in Inr (e1\<lparr>uiContainer := c, uiLoader := Some l',
                         calls := calls e1 @ [ApplyLayout (cbounds (uiContainer e1))]\<rparr>)))"

subsection \<open>Base-class operations used by the constructor\<close>

text \<open>
  Changing the editor's own bounds: the toolkit calls the virtual \<open>resized\<close> when the
  size has changed.
\<close>

definition editor_setBounds :: "'l toolkit \<Rightarrow> rect \<Rightarrow> ('p, 'l) editor \<Rightarrow> error + ('p, 'l) editor" where
  "editor_setBounds fw r e =
     (if rw r = rw (bounds e) \<and> rh r = rh (bounds e)
      then Inr (e\<lparr>bounds := r\<rparr>)
      else resized fw (e\<lparr>bounds := r\<rparr>))"

definition setSize :: "'l toolkit \<Rightarrow> int \<Rightarrow> int \<Rightarrow> ('p, 'l) editor \<Rightarrow> error + ('p, 'l) editor" where
  "setSize fw w h e =
     editor_setBounds fw ((bounds e)\<lparr>rw := w, rh := h\<rparr>) (e\<lparr>calls := calls e @ [SetSize w h]\<rparr>)"

definition setResizable :: "bool \<Rightarrow> bool \<Rightarrow> ('p, 'l) editor \<Rightarrow> ('p, 'l) editor" where
  "setResizable allowHostToResize useBottomRightCornerResizer e =
     e\<lparr>resizableByHost := allowHostToResize, cornerResizer := useBottomRightCornerResizer,
       calls := calls e @ [SetResizable allowHostToResize useBottomRightCornerResizer]\<rparr>"

definition setResizeLimits ::
  "'l toolkit \<Rightarrow> int \<Rightarrow> int \<Rightarrow> int \<Rightarrow> int \<Rightarrow> ('p, 'l) editor \<Rightarrow> error + ('p, 'l) editor" where
  "setResizeLimits fw minW minH maxW maxH e =
     editor_setBounds fw (constrainBounds fw (minW, minH, maxW, maxH) (bounds e))
       (e\<lparr>resizeLimits := Some (minW, minH, maxW, maxH),
          calls := calls e @ [SetResizeLimits minW minH maxW maxH]\<rparr>)"

definition addAndMakeVisible_uiContainer :: "('p, 'l) editor \<Rightarrow> ('p, 'l) editor" where
  "addAndMakeVisible_uiContainer e =
     e\<lparr>uiContainer := (uiContainer e)\<lparr>cvisible := True, cparented := True\<rparr>,
       calls := calls e @ [AddAndMakeVisible]\<rparr>"

subsection \<open>The constructor\<close>

text \<open>
  Member initialisers (lines 7 to 12); \<open>juce::ignoreUnused (processorRef)\<close> evaluates
  to nothing.
\<close>

definition initialised :: "'l toolkit \<Rightarrow> 'p \<Rightarrow> ('p, 'l) editor" where
  "initialised fw p =
     \<lparr>bounds = zero_rect, resizableByHost = False, cornerResizer = False, resizeLimits = None,
      processorRef = p, uiContainer = new_component,
      imageLoader = BinaryAssetImageLoader (namedResourceList (resources fw))
        (namedResourceListSize (resources fw)) (getNamedResource (resources fw))
        (getNamedResourceOriginalFilename (resources fw)),
      uiLoader = None, calls = []\<rparr>"

text \<open>Line 19: \<open>uiLoader = std::make_unique<UILoader> (uiContainer, imageLoader)\<close>.\<close>

definition make_uiLoader :: "'l toolkit \<Rightarrow> ('p, 'l) editor \<Rightarrow> ('p, 'l) editor" where
  "make_uiLoader fw e =
     (let (c, l) = newLoader fw (imageLoader e) (uiContainer e)
      in e\<lparr>uiContainer := c, uiLoader := Some l, calls := calls e @ [NewLoader]\<rparr>)"

text \<open>Line 22: \<open>uiLoader->loadUI (name)\<close>; its result, if any, is not looked at.\<close>

definition uiLoader_loadUI :: "'l toolkit \<Rightarrow> string \<Rightarrow> ('p, 'l) editor \<Rightarrow> error + ('p, 'l) editor" where
  "uiLoader_loadUI fw name e =
     (case uiLoader e of
        None \<Rightarrow> Inl NullDereference
      | Some l \<Rightarrow>
          (let (c, l') = loadUI fw name (imageLoader e) (uiContainer e) l
           in Inr (e\<lparr>uiContainer := c, uiLoader := Some l', calls := calls e @ [LoadUI name]\<rparr>)))"

text \<open>Lines 6 to 22: up to and including the load of the description.\<close>

definition constructor_load :: "'l toolkit \<Rightarrow> 'p \<Rightarrow> error + ('p, 'l) editor" where
  "constructor_load fw p =
     uiLoader_loadUI fw ''my_plugin_ui.xml''
       (make_uiLoader fw (addAndMakeVisible_uiContainer (initialised fw p)))"

text \<open>Lines 25 and 26.\<close>

definition constructor_limits :: "'l toolkit \<Rightarrow> ('p, 'l) editor \<Rightarrow> error + ('p, 'l) editor" where
  "constructor_limits fw e = setResizeLimits fw 400 300 1600 1200 (setResizable True True e)"

text \<open>Line 27.\<close>

definition constructor_size :: "'l toolkit \<Rightarrow> ('p, 'l) editor \<Rightarrow> error + ('p, 'l) editor" where
  "constructor_size fw e = setSize fw (getWidth (uiContainer e)) (getHeight (uiContainer e)) e"

definition constructor :: "'l toolkit \<Rightarrow> 'p \<Rightarrow> error + ('p, 'l) editor" where
  "constructor fw p =
     (case constructor_load fw p of
        Inl x \<Rightarrow> Inl x
      | Inr e0 \<Rightarrow>
          (case constructor_limits fw e0 of
             Inl x \<Rightarrow> Inl x
           | Inr e1 \<Rightarrow> constructor_size fw e1))"

subsection \<open>The Active state: callbacks driven by the host\<close>

text \<open>
  The host repaints, resizes the window (which reaches \<open>resized\<close> when the size changes),
  or has \<open>resized\<close> called outright.
\<close>

datatype event = Paint graphics | Resized | HostSetBounds rect

fun handle :: "'l toolkit \<Rightarrow> event \<Rightarrow> ('p, 'l) editor \<Rightarrow> error + ('p, 'l) editor" where
  "handle fw (Paint g) e = Inr (fst (paint fw e g))"
| "handle fw Resized e = resized fw e"
| "handle fw (HostSetBounds r) e = editor_setBounds fw r e"

fun run :: "'l toolkit \<Rightarrow> ('p, 'l) editor \<Rightarrow> event list \<Rightarrow> error + ('p, 'l) editor" where
  "run fw e [] = Inr e"
| "run fw e (ev # evs) = (case handle fw ev e of Inl x \<Rightarrow> Inl x | Inr e' \<Rightarrow> run fw e' evs)"

subsection \<open>The destructor\<close>

text \<open>
  The destructor's body is empty (lines 30 to 32). C++ then destroys the members in the
  reverse of their declaration order, and the base class last. Destroying the reference
  member does nothing; destroying the \<open>unique_ptr\<close> deletes the loader it holds, if any.
  Destroying the container while the loader is still there is recorded as an error: it is
  the situation the destruction order has to exclude.
\<close>

datatype member = ProcessorRef | UiContainer | ImageLoader | UiLoader

definition member_declarations :: "member list" where
  "member_declarations = [ProcessorRef, UiContainer, ImageLoader, UiLoader]"

fun destroy_member :: "'l toolkit \<Rightarrow> member \<Rightarrow> ('p, 'l) editor \<Rightarrow> error + ('p, 'l) editor" where
  "destroy_member fw ProcessorRef e = Inr e"
| "destroy_member fw UiContainer e =
     (if uiLoader e \<noteq> None then Inl ContainerDestroyedUnderLoader
      else Inr (e\<lparr>calls := calls e @ [DestroyContainer]\<rparr>))"
| "destroy_member fw ImageLoader e = Inr (e\<lparr>calls := calls e @ [DestroyImageLoader]\<rparr>)"
| "destroy_member fw UiLoader e =
     (case uiLoader e of
        None \<Rightarrow> Inr e
      | Some l \<Rightarrow> Inr (e\<lparr>uiContainer := deleteLoader fw (uiContainer e) l, uiLoader := None,
                         calls := calls e @ [DestroyLoader]\<rparr>))"

fun destroy_members :: "'l toolkit \<Rightarrow> member list \<Rightarrow> ('p, 'l) editor \<Rightarrow> error + ('p, 'l) editor" where
  "destroy_members fw [] e = Inr e"
| "destroy_members fw (m # ms) e =
     (case destroy_member fw m e of Inl x \<Rightarrow> Inl x | Inr e' \<Rightarrow> destroy_members fw ms e')"

definition destructor :: "'l toolkit \<Rightarrow> ('p, 'l) editor \<Rightarrow> error + ('p, 'l) editor" where
  "destructor fw e =
     (case destroy_members fw (rev member_declarations) e of
        Inl x \<Rightarrow> Inl x
      | Inr e' \<Rightarrow> Inr (e'\<lparr>calls := calls e' @ [DestroyBase]\<rparr>))"

subsection \<open>Reading the call log\<close>

text \<open>
  Every \<open>ApplyLayout\<close> in a log comes directly after a \<open>ContainerSetBounds\<close>, and was
  issued on exactly the bounds that call had set.
\<close>

fun layout_follows_bounds :: "call list \<Rightarrow> bool" where
  "layout_follows_bounds [] = True"
| "layout_follows_bounds (ContainerSetBounds b # ApplyLayout b' # cs) =
     (b = b' \<and> layout_follows_bounds cs)"
| "layout_follows_bounds (ApplyLayout b # cs) = False"
| "layout_follows_bounds (c # cs) = layout_follows_bounds cs"

subsection \<open>A concrete toolkit\<close>

text \<open>
  An instance used to evaluate the model. The loader's state is the list of its widgets'
  bounds. Loading gives the container a natural size of 800 by 600 and attaches one widget
  filling it; the layout stretches every widget to the container; deleting the loader
  detaches its widgets from the container. The window base class follows
  \<open>juce::AudioProcessorEditor::setResizeLimits\<close>, which re-applies the new limits to the
  current bounds, clamping width and height into them.
\<close>

definition jlimit :: "int \<Rightarrow> int \<Rightarrow> int \<Rightarrow> int" where
  "jlimit lo hi v = (if v < lo then lo else if hi < v then hi else v)"

definition clamp_size :: "int \<times> int \<times> int \<times> int \<Rightarrow> rect \<Rightarrow> rect" where
  "clamp_size lim r =
     (case lim of (minW, minH, maxW, maxH) \<Rightarrow>
        r\<lparr>rw := jlimit minW maxW (rw r), rh := jlimit minH maxH (rh r)\<rparr>)"

definition content_rect :: rect where
  "content_rect = \<lparr>rx = 0, ry = 0, rw = 800, rh = 600\<rparr>"

definition sample_resources :: binary_data where
  "sample_resources =
     \<lparr>namedResourceList = [''knob_png''], namedResourceListSize = 1,
      getNamedResource = (\<lambda>n. if n = ''knob_png'' then Some [137, 80, 78, 71] else None),
      getNamedResourceOriginalFilename = (\<lambda>n. if n = ''knob_png'' then Some ''knob.png'' else None)\<rparr>"

definition sample_toolkit :: "(rect list) toolkit" where
  "sample_toolkit =
     \<lparr>resources = sample_resources,
      newLoader = (\<lambda>il c. (c, [])),
      loadUI = (\<lambda>name il c ws. ((setBounds content_rect c)\<lparr>cchildren := 1\<rparr>, [content_rect])),
      applyLayout = (\<lambda>il c ws. (c, map (\<lambda>w. cbounds c) ws)),
      deleteLoader = (\<lambda>c ws. c\<lparr>cchildren := 0\<rparr>),
      constrainBounds = clamp_size,
      findColour = (\<lambda>i. 0xFF323E44)\<rparr>"

text \<open>The same toolkit with a window base class that leaves the bounds alone.\<close>

definition passive_toolkit :: "(rect list) toolkit" where
  "passive_toolkit = sample_toolkit\<lparr>constrainBounds := (\<lambda>lim r. r)\<rparr>"

definition sample_graphics :: graphics where
  "sample_graphics = \<lparr>clip = \<lparr>rx = 0, ry = 0, rw = 640, rh = 480\<rparr>, drawn = []\<rparr>"

text \<open>
  The editor the constructor builds on \<open>sample_toolkit\<close> for a processor \<open>p\<close>
  (see \<open>constructor_sample\<close> below): installing the limits has already taken the
  window from 0 by 0 to 400 by 300 and run \<open>resized\<close> once.
\<close>

definition sample_editor :: "'p \<Rightarrow> ('p, rect list) editor" where
  "sample_editor p =
     \<lparr>bounds = \<lparr>rx = 0, ry = 0, rw = 400, rh = 300\<rparr>, resizableByHost = True,
      cornerResizer = True, resizeLimits = Some (400, 300, 1600, 1200), processorRef = p,
      uiContainer = \<lparr>cbounds = \<lparr>rx = 0, ry = 0, rw = 400, rh = 300\<rparr>, cvisible = True,
                      cparented = True, cchildren = 1\<rparr>,
      imageLoader = BinaryAssetImageLoader (namedResourceList sample_resources)
        (namedResourceListSize sample_resources) (getNamedResource sample_resources)
        (getNamedResourceOriginalFilename sample_resources),
      uiLoader = Some [\<lparr>rx = 0, ry = 0, rw = 400, rh = 300\<rparr>],
      calls = [AddAndMakeVisible, NewLoader, LoadUI ''my_plugin_ui.xml'',
               SetResizable True True, SetResizeLimits 400 300 1600 1200,
               ContainerSetBounds \<lparr>rx = 0, ry = 0, rw = 400, rh = 300\<rparr>,
               ApplyLayout \<lparr>rx = 0, ry = 0, rw = 400, rh = 300\<rparr>,
               SetSize 400 300]\<rparr>"

text \<open>The state after line 22 on \<open>sample_toolkit\<close>: the container has its loaded size.\<close>

definition sample_loaded :: "'p \<Rightarrow> ('p, rect list) editor" where
  "sample_loaded p =
     \<lparr>bounds = zero_rect, resizableByHost = False, cornerResizer = False,
      resizeLimits = None, processorRef = p,
      uiContainer = \<lparr>cbounds = content_rect, cvisible = True, cparented = True, cchildren = 1\<rparr>,
      imageLoader = BinaryAssetImageLoader (namedResourceList sample_resources)
        (namedResourceListSize sample_resources) (getNamedResource sample_resources)
        (getNamedResourceOriginalFilename sample_resources),
      uiLoader = Some [content_rect],
      calls = [AddAndMakeVisible, NewLoader, LoadUI ''my_plugin_ui.xml'']\<rparr>"

section \<open>Properties\<close>

lemmas sample_defs =
  sample_toolkit_def passive_toolkit_def sample_resources_def content_rect_def clamp_size_def
  jlimit_def zero_rect_def new_component_def

lemmas editor_defs =
  constructor_def constructor_load_def constructor_limits_def constructor_size_def
  uiLoader_loadUI_def make_uiLoader_def addAndMakeVisible_uiContainer_def initialised_def
  setResizeLimits_def setResizable_def setSize_def editor_setBounds_def resized_def
  getLocalBounds_def getWidth_def getHeight_def setBounds_def

subsection \<open>The sample toolkit, evaluated\<close>

lemma constructor_load_sample: "constructor_load sample_toolkit p = Inr (sample_loaded p)"
  by (simp add: constructor_load_def uiLoader_loadUI_def make_uiLoader_def
      addAndMakeVisible_uiContainer_def initialised_def sample_toolkit_def new_component_def
      setBounds_def sample_loaded_def)

lemma constructor_sample: "constructor sample_toolkit p = Inr (sample_editor p)"
  by (simp add: editor_defs sample_defs sample_editor_def)

subsection \<open>\<open>resized\<close> and the editor's own bounds\<close>

lemma resized_calls:
  "resized fw e = Inr e' \<Longrightarrow>
   calls e' = calls e @ [ContainerSetBounds (getLocalBounds e), ApplyLayout (getLocalBounds e)]"
  by (auto simp: resized_def Let_def setBounds_def split: option.splits prod.splits)

lemma resized_frame:
  "resized fw e = Inr e' \<Longrightarrow>
   bounds e' = bounds e \<and> resizableByHost e' = resizableByHost e \<and> cornerResizer e' = cornerResizer e
   \<and> resizeLimits e' = resizeLimits e \<and> processorRef e' = processorRef e
   \<and> imageLoader e' = imageLoader e \<and> uiLoader e' \<noteq> None"
  by (auto simp: resized_def Let_def split: option.splits prod.splits)

lemma resized_ok: "uiLoader e \<noteq> None \<Longrightarrow> \<exists>e'. resized fw e = Inr e'"
  by (auto simp: resized_def Let_def split: option.splits prod.splits)

lemma resized_null: "uiLoader e = None \<Longrightarrow> resized fw e = Inl NullDereference"
  by (simp add: resized_def Let_def)

lemma layout_follows_bounds_cons:
  "layout_follows_bounds ys \<Longrightarrow> layout_follows_bounds (ContainerSetBounds v # ys)"
proof (cases ys)
  case Nil
  then show ?thesis by simp
next
  case (Cons c cs)
  assume "layout_follows_bounds ys"
  with Cons show ?thesis by (cases c) simp_all
qed

lemma layout_follows_bounds_append:
  "layout_follows_bounds xs \<Longrightarrow> layout_follows_bounds ys \<Longrightarrow> layout_follows_bounds (xs @ ys)"
  by (induction xs rule: layout_follows_bounds.induct) (auto intro: layout_follows_bounds_cons)

lemma editor_setBounds_ok:
  "uiLoader e \<noteq> None \<Longrightarrow> \<exists>e'. editor_setBounds fw r e = Inr e'"
  using resized_ok [of "e\<lparr>bounds := r\<rparr>" fw] by (simp add: editor_setBounds_def)

lemma editor_setBounds_frame:
  assumes "editor_setBounds fw r e = Inr e'"
  shows "bounds e' = r" and "resizableByHost e' = resizableByHost e"
    and "cornerResizer e' = cornerResizer e" and "resizeLimits e' = resizeLimits e"
    and "processorRef e' = processorRef e" and "imageLoader e' = imageLoader e"
    and "uiLoader e \<noteq> None \<Longrightarrow> uiLoader e' \<noteq> None"
  using assms resized_frame [of fw "e\<lparr>bounds := r\<rparr>" e']
  by (auto simp: editor_setBounds_def split: if_splits)

lemma editor_setBounds_calls:
  assumes "editor_setBounds fw r e = Inr e'"
  shows "\<exists>cs. calls e' = calls e @ cs \<and> layout_follows_bounds cs"
proof (cases "rw r = rw (bounds e) \<and> rh r = rh (bounds e)")
  case True
  with assms have "calls e' = calls e @ []" by (auto simp: editor_setBounds_def)
  then show ?thesis by (intro exI [of _ "[]"]) simp
next
  case False
  with assms have "resized fw (e\<lparr>bounds := r\<rparr>) = Inr e'" by (auto simp: editor_setBounds_def)
  from resized_calls [OF this] show ?thesis by simp
qed

lemma editor_setBounds_same_size:
  "rw r = rw (bounds e) \<Longrightarrow> rh r = rh (bounds e) \<Longrightarrow> editor_setBounds fw r e = Inr (e\<lparr>bounds := r\<rparr>)"
  by (simp add: editor_setBounds_def)

lemma constructor_load_ok:
  "\<exists>e0. constructor_load fw p = Inr e0 \<and> uiLoader e0 \<noteq> None \<and> bounds e0 = zero_rect
        \<and> processorRef e0 = p
        \<and> calls e0 = [AddAndMakeVisible, NewLoader, LoadUI ''my_plugin_ui.xml'']"
  by (auto simp: constructor_load_def uiLoader_loadUI_def make_uiLoader_def
      addAndMakeVisible_uiContainer_def initialised_def Let_def split: prod.splits)

lemma constructor_limits_ok:
  assumes "uiLoader e0 \<noteq> None"
  shows "\<exists>e1 cs. constructor_limits fw e0 = Inr e1 \<and> uiLoader e1 \<noteq> None
            \<and> resizableByHost e1 \<and> cornerResizer e1
            \<and> resizeLimits e1 = Some (400, 300, 1600, 1200)
            \<and> processorRef e1 = processorRef e0
            \<and> calls e1 = calls e0 @ [SetResizable True True, SetResizeLimits 400 300 1600 1200] @ cs
            \<and> layout_follows_bounds cs"
proof -
  let ?e = "(setResizable True True e0)\<lparr>resizeLimits := Some (400, 300, 1600, 1200),
      calls := calls (setResizable True True e0) @ [SetResizeLimits 400 300 1600 1200]\<rparr>"
  let ?r = "constrainBounds fw (400, 300, 1600, 1200) (bounds (setResizable True True e0))"
  have l: "uiLoader ?e \<noteq> None" using assms by (simp add: setResizable_def)
  from editor_setBounds_ok [OF l] obtain e1 where e1: "editor_setBounds fw ?r ?e = Inr e1" by blast
  from editor_setBounds_calls [OF e1] obtain cs where
    cs: "calls e1 = calls ?e @ cs" "layout_follows_bounds cs" by blast
  have "constructor_limits fw e0 = Inr e1"
    using e1 by (simp add: constructor_limits_def setResizeLimits_def)
  moreover have "uiLoader e1 \<noteq> None" using editor_setBounds_frame(7) [OF e1] l by blast
  moreover have "resizableByHost e1" "cornerResizer e1" "resizeLimits e1 = Some (400, 300, 1600, 1200)"
    "processorRef e1 = processorRef e0"
    using editor_setBounds_frame(2-5) [OF e1] by (simp_all add: setResizable_def)
  moreover have "calls e1 = calls e0 @ [SetResizable True True, SetResizeLimits 400 300 1600 1200] @ cs"
    using cs(1) by (simp add: setResizable_def)
  ultimately show ?thesis using cs(2) by blast
qed

lemma constructor_size_ok:
  assumes "uiLoader e1 \<noteq> None"
  shows "\<exists>e cs. constructor_size fw e1 = Inr e \<and> uiLoader e \<noteq> None
            \<and> rw (bounds e) = getWidth (uiContainer e1) \<and> rh (bounds e) = getHeight (uiContainer e1)
            \<and> resizableByHost e = resizableByHost e1 \<and> cornerResizer e = cornerResizer e1
            \<and> resizeLimits e = resizeLimits e1
            \<and> processorRef e = processorRef e1
            \<and> calls e = calls e1 @ [SetSize (getWidth (uiContainer e1)) (getHeight (uiContainer e1))] @ cs
            \<and> layout_follows_bounds cs"
proof -
  let ?w = "getWidth (uiContainer e1)" and ?h = "getHeight (uiContainer e1)"
  let ?e = "e1\<lparr>calls := calls e1 @ [SetSize ?w ?h]\<rparr>"
  let ?r = "(bounds e1)\<lparr>rw := ?w, rh := ?h\<rparr>"
  have l: "uiLoader ?e \<noteq> None" using assms by simp
  from editor_setBounds_ok [OF l] obtain e where e: "editor_setBounds fw ?r ?e = Inr e" by blast
  from editor_setBounds_calls [OF e] obtain cs where
    cs: "calls e = calls ?e @ cs" "layout_follows_bounds cs" by blast
  have "constructor_size fw e1 = Inr e"
    using e by (simp add: constructor_size_def setSize_def)
  moreover have "uiLoader e \<noteq> None" using editor_setBounds_frame(7) [OF e] l by blast
  moreover have "rw (bounds e) = ?w" "rh (bounds e) = ?h"
    using editor_setBounds_frame(1) [OF e] by simp_all
  moreover have "resizableByHost e = resizableByHost e1" "cornerResizer e = cornerResizer e1"
    "resizeLimits e = resizeLimits e1" "processorRef e = processorRef e1"
    using editor_setBounds_frame(2-5) [OF e] by simp_all
  moreover have "calls e = calls e1 @ [SetSize ?w ?h] @ cs"
    using cs(1) by simp
  ultimately show ?thesis using cs(2) by blast
qed

lemma constructor_ok:
  "\<exists>e. constructor fw p = Inr e \<and> uiLoader e \<noteq> None \<and> layout_follows_bounds (calls e)
       \<and> processorRef e = p"
proof -
  obtain e0 where e0: "constructor_load fw p = Inr e0" "uiLoader e0 \<noteq> None" "processorRef e0 = p"
    "calls e0 = [AddAndMakeVisible, NewLoader, LoadUI ''my_plugin_ui.xml'']"
    using constructor_load_ok [of fw p] by blast
  obtain e1 cs1 where e1: "constructor_limits fw e0 = Inr e1" "uiLoader e1 \<noteq> None"
    "processorRef e1 = processorRef e0"
    "calls e1 = calls e0 @ [SetResizable True True, SetResizeLimits 400 300 1600 1200] @ cs1"
    "layout_follows_bounds cs1"
    using constructor_limits_ok [OF e0(2), of fw] by blast
  obtain e cs2 where e: "constructor_size fw e1 = Inr e" "uiLoader e \<noteq> None"
    "processorRef e = processorRef e1"
    "calls e = calls e1 @ [SetSize (getWidth (uiContainer e1)) (getHeight (uiContainer e1))] @ cs2"
    "layout_follows_bounds cs2"
    using constructor_size_ok [OF e1(2), of fw] by blast
  have c: "constructor fw p = Inr e" using e0(1) e1(1) e(1) by (simp add: constructor_def)
  have "layout_follows_bounds (calls e0)" using e0(4) by simp
  then have "layout_follows_bounds (calls e1)"
    using e1(4,5) by (simp add: layout_follows_bounds_append)
  then have "layout_follows_bounds (calls e)"
    using e(4,5) by (simp add: layout_follows_bounds_append)
  then show ?thesis using c e(2,3) e1(3) e0(3) by simp
qed

lemma handle_ok:
  assumes "uiLoader e \<noteq> None"
  shows "\<exists>e'. handle fw ev e = Inr e' \<and> uiLoader e' \<noteq> None"
proof (cases ev)
  case (Paint g)
  then show ?thesis using assms by (simp add: paint_def)
next
  case Resized
  then show ?thesis using resized_ok [OF assms, of fw] resized_frame [of fw e] by auto
next
  case (HostSetBounds r)
  then show ?thesis
    using editor_setBounds_ok [OF assms, of fw r] editor_setBounds_frame(7) [of fw r e] assms by auto
qed

lemma handle_calls:
  assumes "handle fw ev e = Inr e'" and "layout_follows_bounds (calls e)"
  shows "layout_follows_bounds (calls e')"
proof (cases ev)
  case (Paint g)
  then show ?thesis using assms by (simp add: paint_def)
next
  case Resized
  then show ?thesis using assms resized_calls [of fw e e']
    by (simp add: layout_follows_bounds_append)
next
  case (HostSetBounds r)
  then show ?thesis using assms editor_setBounds_calls [of fw r e e']
    by (auto simp: layout_follows_bounds_append)
qed

lemma run_ok:
  "uiLoader e \<noteq> None \<Longrightarrow> \<exists>e'. run fw e evs = Inr e' \<and> uiLoader e' \<noteq> None"
proof (induction evs arbitrary: e)
  case Nil
  then show ?case by simp
next
  case (Cons ev evs)
  from handle_ok [OF Cons.prems, of fw ev] obtain e1 where
    "handle fw ev e = Inr e1" "uiLoader e1 \<noteq> None" by blast
  with Cons.IH [of e1] show ?case by simp
qed

lemma run_calls:
  "run fw e evs = Inr e' \<Longrightarrow> layout_follows_bounds (calls e) \<Longrightarrow> layout_follows_bounds (calls e')"
proof (induction evs arbitrary: e)
  case Nil
  then show ?case by simp
next
  case (Cons ev evs)
  then show ?case by (auto split: sum.splits dest: handle_calls)
qed

subsection \<open>Painting, destruction and the processor reference\<close>

text \<open>
  What the body of \<open>paint\<close> settles: it hands back the editor it was given, keeps the
  clip region, and issues one fill of the clip region with the colour the look-and-feel has
  for \<open>ResizableWindow::backgroundColourId\<close>.
\<close>

lemma paint_frame:
  "fst (paint fw e g) = e \<and>
   clip (snd (paint fw e g)) = clip g \<and>
   drawn (snd (paint fw e g)) =
     drawn g @ [FillRect (clip g) (findColour fw ResizableWindow_backgroundColourId)]"
  by (simp add: paint_def fillAll_def)

lemma run_paints: "run fw e (map Paint gs) = Inr e"
  by (induction gs) (simp_all add: paint_def)

lemma destructor_eval:
  "destructor fw e =
     Inr (e\<lparr>uiContainer := (case uiLoader e of None \<Rightarrow> uiContainer e
                             | Some l \<Rightarrow> deleteLoader fw (uiContainer e) l),
            uiLoader := None,
            calls := calls e @ (case uiLoader e of None \<Rightarrow> [] | Some l \<Rightarrow> [DestroyLoader])
                       @ [DestroyImageLoader, DestroyContainer, DestroyBase]\<rparr>)"
  by (cases "uiLoader e") (simp_all add: destructor_def member_declarations_def)

text \<open>
  The check on the container is not idle: had the members been destroyed in declaration
  order, a live loader would have outlived the container.
\<close>

lemma declaration_order_would_dangle:
  "uiLoader e = Some l \<Longrightarrow>
   destroy_members fw member_declarations e = Inl ContainerDestroyedUnderLoader"
  by (simp add: member_declarations_def)







section \<open>The claims\<close>

text \<open>
  Claims C4 (the layout step is idempotent), C5 (a failed load is atomic and reported) and
  C6 (the image provider answers an unknown name with "absent") are about what the loader
  and the image provider do inside. The sources only call them; here they are the parameters
  \<open>applyLayout\<close>, \<open>loadUI\<close> and the entries of \<open>binary_data\<close>, about which
  nothing is assumed, so nothing is stated for these three claims. Claim C7 asks, beyond
  what \<open>paint_frame\<close> records, that painting allocates no memory and has no way to fail.
  Both are questions about the inside of the toolkit's drawing and colour lookup, and memory
  allocation is not something a function from states to states shows; no theorem is given
  for it.
\<close>

subsection \<open>C1: the container is sized before the layout is applied\<close>

text \<open>
  Claim C1. Every invocation of \<open>resized\<close> first sets the container's bounds to the
  editor's current local bounds and only then calls \<open>applyLayout\<close>; the layout is never
  applied before the container has its latest size. In the model: with a loader in place
  \<open>resized\<close> returns; whenever it returns it has appended exactly two calls to the log,
  the container's \<open>setBounds\<close> with the editor's local bounds and then \<open>applyLayout\<close>,
  issued while the container had those bounds; and in the log of a constructed editor after
  any sequence of host callbacks every \<open>applyLayout\<close> directly follows a
  \<open>setBounds\<close> of the container to the bounds it was applied on.
\<close>

theorem resized_bounds_before_layout:
  "(uiLoader e \<noteq> None \<longrightarrow> (\<exists>e'. resized fw e = Inr e')) \<and>
   (resized fw e = Inr e' \<longrightarrow>
      calls e' = calls e @ [ContainerSetBounds (getLocalBounds e), ApplyLayout (getLocalBounds e)]) \<and>
   (constructor fw p = Inr e0 \<longrightarrow> run fw e0 evs = Inr e1 \<longrightarrow> layout_follows_bounds (calls e1))"
proof (intro conjI impI)
  assume "uiLoader e \<noteq> None"
  then show "\<exists>e'. resized fw e = Inr e'" by (rule resized_ok)
next
  assume "resized fw e = Inr e'"
  then show "calls e' = calls e @ [ContainerSetBounds (getLocalBounds e), ApplyLayout (getLocalBounds e)]"
    by (rule resized_calls)
next
  assume c: "constructor fw p = Inr e0" and r: "run fw e0 evs = Inr e1"
  from constructor_ok [of fw p] c have "layout_follows_bounds (calls e0)" by auto
  with r show "layout_follows_bounds (calls e1)" by (rule run_calls)
qed

theorem resized_bounds_before_layout_witness:
  "\<exists>e' e1. uiLoader (sample_editor ()) \<noteq> None
     \<and> resized sample_toolkit (sample_editor ()) = Inr e'
     \<and> calls e' = calls (sample_editor ()) @
          [ContainerSetBounds \<lparr>rx = 0, ry = 0, rw = 400, rh = 300\<rparr>,
           ApplyLayout \<lparr>rx = 0, ry = 0, rw = 400, rh = 300\<rparr>]
     \<and> constructor sample_toolkit () = Inr (sample_editor ())
     \<and> run sample_toolkit (sample_editor ())
          [Paint sample_graphics, HostSetBounds \<lparr>rx = 10, ry = 20, rw = 1000, rh = 700\<rparr>, Resized]
         = Inr e1
     \<and> layout_follows_bounds (calls e1)"
proof -
  let ?e = "sample_editor ()"
  let ?evs = "[Paint sample_graphics, HostSetBounds \<lparr>rx = 10, ry = 20, rw = 1000, rh = 700\<rparr>, Resized]"
  have l: "uiLoader ?e \<noteq> None" by (simp add: sample_editor_def)
  from run_ok [OF l, of sample_toolkit ?evs] obtain e1 where
    e1: "run sample_toolkit ?e ?evs = Inr e1" by blast
  from resized_bounds_before_layout [of ?e sample_toolkit _ "()" ?e ?evs e1] l
  obtain e' where e': "resized sample_toolkit ?e = Inr e'" by blast
  from resized_bounds_before_layout [of ?e sample_toolkit e' "()" ?e ?evs e1]
    l e1 e' constructor_sample [of "()"]
  show ?thesis by (simp add: getLocalBounds_def sample_editor_def)
qed

subsection \<open>C2: the window contract after construction\<close>

text \<open>
  Claim C2. After construction the editor window is resizable on both axes and its resize
  limits are exactly minimum 400 by 300 and maximum 1600 by 1200. In the model: on every
  toolkit the constructor returns an editor with both arguments of \<open>setResizable\<close>
  stored as true (resizable by the host, with a corner resizer) and the limits
  (400, 300, 1600, 1200), which leave room on the width and on the height.
\<close>

theorem constructor_window_contract:
  "\<exists>e. constructor fw p = Inr e \<and> resizableByHost e \<and> cornerResizer e
       \<and> resizeLimits e = Some (400, 300, 1600, 1200)
       \<and> (case resizeLimits e of None \<Rightarrow> False
           | Some (minW, minH, maxW, maxH) \<Rightarrow> minW < maxW \<and> minH < maxH)"
proof -
  obtain e0 where e0: "constructor_load fw p = Inr e0" "uiLoader e0 \<noteq> None"
    using constructor_load_ok [of fw p] by blast
  obtain e1 where e1: "constructor_limits fw e0 = Inr e1" "uiLoader e1 \<noteq> None"
    "resizableByHost e1" "cornerResizer e1" "resizeLimits e1 = Some (400, 300, 1600, 1200)"
    using constructor_limits_ok [OF e0(2), of fw] by blast
  obtain e where e: "constructor_size fw e1 = Inr e" "resizableByHost e = resizableByHost e1"
    "cornerResizer e = cornerResizer e1" "resizeLimits e = resizeLimits e1"
    using constructor_size_ok [OF e1(2), of fw] by blast
  have "constructor fw p = Inr e" using e0(1) e1(1) e(1) by (simp add: constructor_def)
  then show ?thesis using e1(3-5) e(2-4) by simp
qed

theorem constructor_window_contract_witness:
  "constructor sample_toolkit () = Inr (sample_editor ()) \<and> resizableByHost (sample_editor ())
   \<and> cornerResizer (sample_editor ())
   \<and> resizeLimits (sample_editor ()) = Some (400, 300, 1600, 1200)"
  using constructor_window_contract [of sample_toolkit "()"] constructor_sample [of "()"] by auto

subsection \<open>C3: the initial size\<close>

text \<open>
  Line 27 reads the container after lines 25 and 26 have run, not right after \<open>loadUI\<close>.
  The order of the calls is as the claim has it, and the size passed to \<open>setSize\<close> is
  the container's at that moment.
\<close>

lemma constructor_reads_container_at_setSize:
  assumes "constructor_load fw p = Inr e0"
    and "constructor_limits fw e0 = Inr e1"
    and "constructor fw p = Inr e"
  shows "rw (bounds e) = getWidth (uiContainer e1) \<and> rh (bounds e) = getHeight (uiContainer e1) \<and>
    (\<exists>cs post. calls e =
        [AddAndMakeVisible, NewLoader, LoadUI ''my_plugin_ui.xml'', SetResizable True True,
         SetResizeLimits 400 300 1600 1200] @ cs @
        [SetSize (getWidth (uiContainer e1)) (getHeight (uiContainer e1))] @ post)"
proof -
  obtain e0' where e0': "constructor_load fw p = Inr e0'" "uiLoader e0' \<noteq> None"
    "calls e0' = [AddAndMakeVisible, NewLoader, LoadUI ''my_plugin_ui.xml'']"
    using constructor_load_ok [of fw p] by blast
  with assms(1) have e0: "uiLoader e0 \<noteq> None"
    "calls e0 = [AddAndMakeVisible, NewLoader, LoadUI ''my_plugin_ui.xml'']" by simp_all
  obtain e1' cs where e1': "constructor_limits fw e0 = Inr e1'" "uiLoader e1' \<noteq> None"
    "calls e1' = calls e0 @ [SetResizable True True, SetResizeLimits 400 300 1600 1200] @ cs"
    using constructor_limits_ok [OF e0(1), of fw] by blast
  with assms(2) have e1: "uiLoader e1 \<noteq> None"
    "calls e1 = calls e0 @ [SetResizable True True, SetResizeLimits 400 300 1600 1200] @ cs"
    by simp_all
  obtain e' post where e': "constructor_size fw e1 = Inr e'"
    "rw (bounds e') = getWidth (uiContainer e1)" "rh (bounds e') = getHeight (uiContainer e1)"
    "calls e' = calls e1 @ [SetSize (getWidth (uiContainer e1)) (getHeight (uiContainer e1))] @ post"
    using constructor_size_ok [OF e1(1), of fw] by blast
  have "constructor fw p = Inr e'" using assms(1,2) e'(1) by (simp add: constructor_def)
  with assms(3) have ee: "e' = e" by simp
  have size: "rw (bounds e) = getWidth (uiContainer e1) \<and> rh (bounds e) = getHeight (uiContainer e1)"
    using e'(2,3) ee by simp
  have "calls e =
        [AddAndMakeVisible, NewLoader, LoadUI ''my_plugin_ui.xml'', SetResizable True True,
         SetResizeLimits 400 300 1600 1200] @ cs @
        [SetSize (getWidth (uiContainer e1)) (getHeight (uiContainer e1))] @ post"
    using e'(4) ee e1(2) e0(2) by simp
  with size show ?thesis by blast
qed

text \<open>
  On a window base class that re-applies new limits to its current bounds, as
  \<open>juce::AudioProcessorEditor::setResizeLimits\<close> does, line 26 takes the editor from
  0 by 0 to 400 by 300 and \<open>resized\<close> overwrites the container's bounds before line 27
  reads them. With a layout step that keeps the container's bounds the editor then opens
  at 400 by 300, whatever \<open>loadUI\<close> had left in the container.
\<close>

lemma resized_container_bounds:
  assumes "resized fw e = Inr e'"
    and keep: "\<And>il c l. cbounds (fst (applyLayout fw il c l)) = cbounds c"
  shows "cbounds (uiContainer e') = getLocalBounds e"
proof -
  from assms(1) obtain l where l: "uiLoader e = Some l"
    by (cases "uiLoader e") (simp_all add: resized_def Let_def)
  let ?c = "setBounds (getLocalBounds e) (uiContainer e)"
  from assms(1) l have "uiContainer e' = fst (applyLayout fw (imageLoader e) ?c l)"
    by (auto simp: resized_def Let_def split: prod.splits)
  then show ?thesis using keep [of "imageLoader e" ?c l] by (simp add: setBounds_def)
qed

lemma limits_overwrite_container:
  assumes lim: "constructor_limits fw e0 = Inr e1"
    and zero: "bounds e0 = zero_rect"
    and cb: "constrainBounds fw = clamp_size"
    and keep: "\<And>il c l. cbounds (fst (applyLayout fw il c l)) = cbounds c"
  shows "cbounds (uiContainer e1) = \<lparr>rx = 0, ry = 0, rw = 400, rh = 300\<rparr>"
proof -
  let ?e = "(setResizable True True e0)\<lparr>resizeLimits := Some (400, 300, 1600, 1200),
      calls := calls (setResizable True True e0) @ [SetResizeLimits 400 300 1600 1200]\<rparr>"
  let ?r = "\<lparr>rx = 0, ry = 0, rw = 400, rh = 300\<rparr>"
  have r: "constrainBounds fw (400, 300, 1600, 1200) (bounds (setResizable True True e0)) = ?r"
    using zero by (simp add: cb clamp_size_def jlimit_def zero_rect_def setResizable_def)
  have b: "bounds ?e = zero_rect" using zero by (simp add: setResizable_def)
  have "editor_setBounds fw ?r ?e = Inr e1"
    using lim r by (simp add: constructor_limits_def setResizeLimits_def)
  then have "resized fw (?e\<lparr>bounds := ?r\<rparr>) = Inr e1"
    using b by (simp add: editor_setBounds_def zero_rect_def)
  from resized_container_bounds [OF this keep] show ?thesis by (simp add: getLocalBounds_def)
qed

lemma limits_fix_initial_size:
  assumes cb: "constrainBounds fw = clamp_size"
    and keep: "\<And>il c l. cbounds (fst (applyLayout fw il c l)) = cbounds c"
  shows "\<exists>e. constructor fw p = Inr e \<and> rw (bounds e) = 400 \<and> rh (bounds e) = 300"
proof -
  obtain e0 where e0: "constructor_load fw p = Inr e0" "uiLoader e0 \<noteq> None"
    "bounds e0 = zero_rect"
    using constructor_load_ok [of fw p] by blast
  obtain e1 where e1: "constructor_limits fw e0 = Inr e1" "uiLoader e1 \<noteq> None"
    using constructor_limits_ok [OF e0(2), of fw] by blast
  obtain e where e: "constructor_size fw e1 = Inr e"
    "rw (bounds e) = getWidth (uiContainer e1)" "rh (bounds e) = getHeight (uiContainer e1)"
    using constructor_size_ok [OF e1(2), of fw] by blast
  have "cbounds (uiContainer e1) = \<lparr>rx = 0, ry = 0, rw = 400, rh = 300\<rparr>"
    using limits_overwrite_container [OF e1(1) e0(3) cb keep] .
  then have "rw (bounds e) = 400" "rh (bounds e) = 300"
    using e(2,3) by (simp_all add: getWidth_def getHeight_def)
  moreover have "constructor fw p = Inr e" using e0(1) e1(1) e(1) by (simp add: constructor_def)
  ultimately show ?thesis by blast
qed

text \<open>
  Claim C3. The editor's initial size, set at the end of the constructor, equals the
  container's width and height as they stand after \<open>loadUI\<close> has completed, and this
  \<open>setSize\<close> happens after the \<open>loadUI\<close> call. The code misses the first half by the
  order of its calls: evaluated on \<open>sample_toolkit\<close>, where the description loads at 800
  by 600, the constructor returns an editor of 400 by 300.
\<close>

theorem initial_size_misses_loaded_size:
  "(case (constructor_load sample_toolkit (), constructor sample_toolkit ()) of
      (Inr e0, Inr e) \<Rightarrow>
        (getWidth (uiContainer e0), getHeight (uiContainer e0)) = (800, 600) \<and>
        (rw (bounds e), rh (bounds e)) = (400, 300) \<and>
        (rw (bounds e), rh (bounds e)) \<noteq> (getWidth (uiContainer e0), getHeight (uiContainer e0))
    | _ \<Rightarrow> False)"
  by (simp add: constructor_sample constructor_load_sample sample_editor_def sample_loaded_def
      getWidth_def getHeight_def content_rect_def)

subsection \<open>C8: the callbacks are safe while the editor is active\<close>

text \<open>
  Claim C8. While the editor is Active, \<open>paint\<close> and \<open>resized\<close> can be called
  arbitrarily often and in any order; in particular \<open>paint\<close> before any \<open>resized\<close>,
  on a zero-size window, does not crash. In the model: on every toolkit the constructor
  returns an editor, and every sequence of host callbacks run on it returns an editor (the
  loader pointer is never null when \<open>resized\<close> dereferences it); \<open>paint\<close> returns on
  any editor state at all, including the freshly initialised one with zero bounds and no
  loader yet.
\<close>

theorem callbacks_safe_while_active:
  "(\<exists>e0 e. constructor fw p = Inr e0 \<and> run fw e0 evs = Inr e) \<and>
   handle fw (Paint g) (initialised fw p) = Inr (initialised fw p) \<and>
   handle fw (Paint g) e' = Inr e'"
proof -
  obtain e0 where e0: "constructor fw p = Inr e0" "uiLoader e0 \<noteq> None"
    using constructor_ok [of fw p] by blast
  from run_ok [OF e0(2), of fw evs] obtain e where "run fw e0 evs = Inr e" by blast
  with e0(1) show ?thesis by (auto simp: paint_def)
qed

theorem callbacks_safe_while_active_witness:
  "\<exists>e. constructor passive_toolkit () \<noteq> Inl NullDereference
     \<and> run sample_toolkit (sample_editor ())
         [Paint sample_graphics, Resized, Paint sample_graphics,
          HostSetBounds \<lparr>rx = 0, ry = 0, rw = 0, rh = 0\<rparr>, Paint sample_graphics, Resized, Resized]
        = Inr e"
  using callbacks_safe_while_active [of sample_toolkit "()"
      "[Paint sample_graphics, Resized, Paint sample_graphics,
        HostSetBounds \<lparr>rx = 0, ry = 0, rw = 0, rh = 0\<rparr>, Paint sample_graphics, Resized, Resized]"]
    callbacks_safe_while_active [of passive_toolkit "()" "[]"]
  by (auto simp: constructor_sample)

subsection \<open>C9: the loader goes before the container\<close>

text \<open>
  Claim C9. On destruction of the editor the loader, and with it the widget tree it owns,
  is released before the container is destroyed; the container is never destroyed while the
  loader still holds the tree parented under it. In the model: the destructor, which
  destroys the members in the reverse of their declaration order, always returns (the
  container is never reached with a loader still in place); it leaves no loader; the
  container it ends with is the one the loader's own destructor, run on the loader that was
  held, has left behind (unchanged if there was none); and it appends to the log the loader's
  release (when there is one), then the image provider, then the container, then the base
  class. An editor that was constructed and has served any sequence of callbacks holds a
  loader, so that loader is deleted, with its effect on the container, ahead of the
  container's destruction.
\<close>

theorem loader_released_before_container:
  "(\<exists>e'. destructor fw e = Inr e' \<and> uiLoader e' = None \<and>
      uiContainer e' = (case uiLoader e of None \<Rightarrow> uiContainer e
                        | Some l \<Rightarrow> deleteLoader fw (uiContainer e) l) \<and>
      calls e' = calls e @ (case uiLoader e of None \<Rightarrow> [] | Some l \<Rightarrow> [DestroyLoader])
                  @ [DestroyImageLoader, DestroyContainer, DestroyBase]) \<and>
   (constructor fw p = Inr e0 \<longrightarrow> run fw e0 evs = Inr e1 \<longrightarrow>
      (\<exists>l e2. uiLoader e1 = Some l \<and> destructor fw e1 = Inr e2 \<and> uiLoader e2 = None \<and>
         uiContainer e2 = deleteLoader fw (uiContainer e1) l \<and>
         calls e2 = calls e1 @ [DestroyLoader, DestroyImageLoader, DestroyContainer, DestroyBase]))"
proof (intro conjI impI)
  show "\<exists>e'. destructor fw e = Inr e' \<and> uiLoader e' = None \<and>
      uiContainer e' = (case uiLoader e of None \<Rightarrow> uiContainer e
                        | Some l \<Rightarrow> deleteLoader fw (uiContainer e) l) \<and>
      calls e' = calls e @ (case uiLoader e of None \<Rightarrow> [] | Some l \<Rightarrow> [DestroyLoader])
                  @ [DestroyImageLoader, DestroyContainer, DestroyBase]"
    by (simp add: destructor_eval)
next
  assume c: "constructor fw p = Inr e0" and r: "run fw e0 evs = Inr e1"
  from constructor_ok [of fw p] c have "uiLoader e0 \<noteq> None" by auto
  from run_ok [OF this, of fw evs] r have "uiLoader e1 \<noteq> None" by auto
  then obtain l where "uiLoader e1 = Some l" by blast
  then show "\<exists>l e2. uiLoader e1 = Some l \<and> destructor fw e1 = Inr e2 \<and> uiLoader e2 = None \<and>
         uiContainer e2 = deleteLoader fw (uiContainer e1) l \<and>
         calls e2 = calls e1 @ [DestroyLoader, DestroyImageLoader, DestroyContainer, DestroyBase]"
    by (simp add: destructor_eval)
qed

text \<open>
  On \<open>sample_toolkit\<close> the constructed editor's container carries one widget; after the
  destructor it carries none, and the loader has gone first.
\<close>

theorem loader_released_before_container_witness:
  "\<exists>e2. constructor sample_toolkit () = Inr (sample_editor ())
     \<and> run sample_toolkit (sample_editor ()) [] = Inr (sample_editor ())
     \<and> cchildren (uiContainer (sample_editor ())) = 1
     \<and> destructor sample_toolkit (sample_editor ()) = Inr e2
     \<and> uiLoader e2 = None
     \<and> cchildren (uiContainer e2) = 0
     \<and> uiContainer e2 = \<lparr>cbounds = \<lparr>rx = 0, ry = 0, rw = 400, rh = 300\<rparr>, cvisible = True,
                           cparented = True, cchildren = 0\<rparr>
     \<and> calls e2 = calls (sample_editor ()) @
         [DestroyLoader, DestroyImageLoader, DestroyContainer, DestroyBase]"
proof -
  have c: "constructor sample_toolkit () = Inr (sample_editor ())" by (rule constructor_sample)
  have r: "run sample_toolkit (sample_editor ()) [] = Inr (sample_editor ())" by simp
  from loader_released_before_container
      [of sample_toolkit "sample_editor ()" "()" "sample_editor ()" "[]" "sample_editor ()"] c r
  obtain l e2 where e2: "uiLoader (sample_editor ()) = Some l"
    "destructor sample_toolkit (sample_editor ()) = Inr e2" "uiLoader e2 = None"
    "uiContainer e2 = deleteLoader sample_toolkit (uiContainer (sample_editor ())) l"
    "calls e2 = calls (sample_editor ()) @
       [DestroyLoader, DestroyImageLoader, DestroyContainer, DestroyBase]"
    by blast
  have "uiContainer e2 = \<lparr>cbounds = \<lparr>rx = 0, ry = 0, rw = 400, rh = 300\<rparr>, cvisible = True,
                           cparented = True, cchildren = 0\<rparr>"
    using e2(4) by (simp add: sample_toolkit_def sample_editor_def)
  moreover have "cchildren (uiContainer (sample_editor ())) = 1" by (simp add: sample_editor_def)
  ultimately show ?thesis using c r e2(2,3,5) by simp
qed

subsection \<open>C10: the processor is left alone\<close>



end
